theory Spec2Isabelle
  imports Main
begin

section \<open>The pprof inspector of claire-netty (PProfInspector.cc)\<close>

text \<open>
  The handlers of \<^verbatim>\<open>PProfInspector\<close> are embedded as functions from the object's
  member fields (the record \<open>PProfInspector\<close>) to an outcome, the list of calls made on the
  collaborators (profiler, event loop, HTTP server, logger) in program order, and the
  new member fields.  What the collaborators answer is read from the record \<open>Env\<close>.
\<close>

subsection \<open>Characters and numerals of the C library\<close>

definition TAB :: char where "TAB = CHR 0x09"
definition NL :: char where "NL = CHR 0x0A"

text \<open>\<^verbatim>\<open>isspace\<close> in the C locale: space, \<^verbatim>\<open>\t \n \v \f \r\<close>.\<close>

definition isspace :: "char \<Rightarrow> bool" where
  "isspace c = (c = CHR 0x20 \<or> c = CHR 0x09 \<or> c = CHR 0x0A \<or> c = CHR 0x0B \<or> c = CHR 0x0C \<or> c = CHR 0x0D)"

text \<open>The code of a character (ASCII: \<open>0\<close> is 48, \<open>A\<close> is 65, \<open>a\<close> is 97).\<close>

definition ord :: "char \<Rightarrow> nat" where
  "ord c = of_char c"

definition isdigit :: "char \<Rightarrow> bool" where
  "isdigit c = (48 \<le> ord c \<and> ord c \<le> 57)"

definition digit_val :: "char \<Rightarrow> nat" where
  "digit_val c = ord c - 48"

definition isxdigit :: "char \<Rightarrow> bool" where
  "isxdigit c = (isdigit c \<or> (97 \<le> ord c \<and> ord c \<le> 102) \<or> (65 \<le> ord c \<and> ord c \<le> 70))"

definition xdigit_val :: "char \<Rightarrow> nat" where
  "xdigit_val c = (if isdigit c then ord c - 48
                   else if 97 \<le> ord c \<and> ord c \<le> 102 then ord c - 87
                   else ord c - 55)"

text \<open>The value of a run of digits in a base, most significant digit first.\<close>

fun digits_value :: "nat \<Rightarrow> (char \<Rightarrow> nat) \<Rightarrow> nat \<Rightarrow> string \<Rightarrow> nat" where
  "digits_value base val acc [] = acc"
| "digits_value base val acc (c # cs) = digits_value base val (acc * base + val c) cs"

text \<open>The optional sign that \<^verbatim>\<open>strtol\<close> and \<^verbatim>\<open>strtoull\<close> accept after the white space:
  whether it is a minus, and the rest of the text.\<close>

fun take_sign :: "string \<Rightarrow> bool \<times> string" where
  "take_sign [] = (False, [])"
| "take_sign (c # cs) = (if c = CHR ''-'' then (True, cs)
                         else if c = CHR ''+'' then (False, cs)
                         else (False, c # cs))"

datatype stoi_error = invalid_argument | out_of_range

text \<open>
  \<^verbatim>\<open>std::stoi(str)\<close> (base 10, no position argument): skips white space, reads an optional
  sign and the longest run of decimal digits, and ignores whatever follows.  No digit at
  all throws \<^verbatim>\<open>std::invalid_argument\<close>; a value that does not fit \<^verbatim>\<open>int\<close> throws
  \<^verbatim>\<open>std::out_of_range\<close>.
\<close>

definition stoi :: "string \<Rightarrow> stoi_error + int" where
  "stoi str =
     (let (neg, s) = take_sign (dropWhile isspace str);
          ds = takeWhile isdigit s
      in if ds = [] then Inl invalid_argument
         else let v = (if neg then - int (digits_value 10 digit_val 0 ds)
                       else int (digits_value 10 digit_val 0 ds))
              in if v < - 2147483648 \<or> 2147483647 < v then Inl out_of_range else Inr v)"

text \<open>
  \<^verbatim>\<open>strtoull(s, NULL, 16)\<close>: skips white space, reads an optional sign, an optional
  \<^verbatim>\<open>0x\<close> that is followed by a hexadecimal digit, and the longest run of hexadecimal
  digits.  No digit gives 0, a value above \<^verbatim>\<open>ULLONG_MAX\<close> gives \<^verbatim>\<open>ULLONG_MAX\<close>, a minus
  sign negates modulo \<open>2 ^ 64\<close>.  The result is the 64-bit \<^verbatim>\<open>uintptr_t\<close> as a natural number.
\<close>

fun skip_0x :: "string \<Rightarrow> string" where
  "skip_0x (z # x # h # cs) =
     (if z = CHR ''0'' \<and> (x = CHR ''x'' \<or> x = CHR ''X'') \<and> isxdigit h then h # cs
      else z # x # h # cs)"
| "skip_0x s = s"

definition strtoull16 :: "string \<Rightarrow> nat" where
  "strtoull16 str =
     (let (neg, s) = take_sign (dropWhile isspace str);
          v = digits_value 16 xdigit_val 0 (takeWhile isxdigit (skip_0x s))
      in if 18446744073709551615 < v then 18446744073709551615
         else if neg then (18446744073709551616 - v) mod 18446744073709551616
         else v)"

text \<open>What \<^verbatim>\<open>operator<<\<close> prints for an unsigned and for a signed integer.\<close>

fun dec_nat :: "nat \<Rightarrow> string" where
  "dec_nat n = (if n < 10 then [''0123456789'' ! n]
                else dec_nat (n div 10) @ [''0123456789'' ! (n mod 10)])"

declare dec_nat.simps [simp del]

definition dec_int :: "int \<Rightarrow> string" where
  "dec_int i = (if i < 0 then CHR ''-'' # dec_nat (nat (- i)) else dec_nat (nat i))"

subsection \<open>Requests, connections, collaborators\<close>

text \<open>The request methods the handlers tell apart; every other method of
  \<^verbatim>\<open>HttpRequest\<close> behaves as \<open>kOther\<close>.\<close>

datatype Method = kGet | kPost | kOther

record HttpRequest =
  request_method :: Method   \<comment> \<open>\<^verbatim>\<open>method()\<close>\<close>
  seconds_parameter :: string   \<comment> \<open>\<^verbatim>\<open>get_parameter("seconds")\<close>\<close>
  body :: string

record HttpConnection =
  conn_id :: nat
  request :: HttpRequest

datatype Task = ProfileComplete | HeapProfileComplete

text \<open>The calls a handler makes on its collaborators.\<close>

datatype Event =
    LogError string
  | OnError nat nat string                \<comment> \<open>connection, status, reason\<close>
  | ProfilerStart string
  | ProfilerRegisterThread
  | ProfilerFlush
  | ProfilerStop
  | HeapProfilerStart string
  | HeapProfilerStop
  | RunAfter nat int Task                 \<comment> \<open>event loop, delay in ms, callback\<close>
  | SendByHttpConnectionId nat string     \<comment> \<open>\<^verbatim>\<open>server_->SendByHttpConnectionId\<close>\<close>
  | ServerShutdown nat                    \<comment> \<open>\<^verbatim>\<open>server_->Shutdown\<close>\<close>
  | Send nat string                       \<comment> \<open>\<^verbatim>\<open>connection->Send\<close> of a text\<close>
  | SendResponse nat string               \<comment> \<open>\<^verbatim>\<open>connection->Send(&response)\<close>, the body\<close>
  | Shutdown nat                          \<comment> \<open>\<^verbatim>\<open>connection->Shutdown\<close>\<close>

text \<open>
  What the environment answers.  \<open>CurrentLoopInThisThread\<close> is the pointer
  \<^verbatim>\<open>EventLoop::CurrentLoopInThisThread()\<close> of the thread running the handler (\<open>None\<close> is
  the null pointer); \<open>ReadFileToString\<close> is \<open>None\<close> when the read fails;
  \<open>getenv_TCMALLOC_SAMPLE_PARAMETER\<close> is \<open>None\<close> when the variable is not set.
\<close>

record Env =
  CurrentLoopInThisThread :: "nat option"
  ProfilerStart_ok :: bool
  ReadFileToString :: "string \<Rightarrow> string option"
  getenv_TCMALLOC_SAMPLE_PARAMETER :: "string option"
  GetHeapSample :: string
  GetHeapProfile :: string
  Symbolize :: "nat \<Rightarrow> string option"
  kMallocHistogramSize :: nat
  MallocMemoryStats :: "int \<times> nat \<times> (nat \<Rightarrow> int)"   \<comment> \<open>blocks, total, histogram\<close>

text \<open>The member fields: \<open>connections_m\<close> and \<open>heap_connections_m\<close> stand for the members
  \<^verbatim>\<open>connections_\<close> and \<^verbatim>\<open>heap_connections_\<close> (the waiters of the CPU and of the heap
  session).  \<open>heap_connections\<close> is the name that \<^verbatim>\<open>OnHeapProfileComplete\<close> swaps with
  \<^verbatim>\<open>connections_\<close>; it is neither the member \<^verbatim>\<open>heap_connections_\<close> nor the local set
  \<^verbatim>\<open>connections\<close> of that function.\<close>

record PProfInspector =
  connections_m :: "nat set"
  heap_connections_m :: "nat set"
  heap_connections :: "nat set"

text \<open>A handler returns, or the process stops: \<^verbatim>\<open>CHECK\<close> is the fatal assertion of the
  logging library, and a call through a null pointer does not return either.\<close>

datatype Outcome = Returned | CheckFailed | NullPointerDereference

definition kProfileFile :: string where "kProfileFile = ''profile.dat''"
definition kDefaultProfileSeconds :: int where "kDefaultProfileSeconds = 30"
definition kMaxProfileSeconds :: int where "kMaxProfileSeconds = 600"

subsection \<open>The CPU profile handler\<close>

text \<open>\<^verbatim>\<open>GetProfileSeconds\<close>: the seconds, or \<open>-1\<close>, and the lines it logs.\<close>

definition GetProfileSeconds :: "string \<Rightarrow> int \<times> Event list" where
  "GetProfileSeconds parameter =
     (if parameter = [] then (kDefaultProfileSeconds, [])
      else case stoi parameter of
             Inr s \<Rightarrow>
               if s < 0 \<or> s > kMaxProfileSeconds
               then (- 1, [LogError (''Invalid profile seconds parameter: '' @ parameter)])
               else (s, [])
           | Inl out_of_range \<Rightarrow>
               (- 1, [LogError (''Invalid profile seconds parameter: '' @ parameter @ '', out of range'')])
           | Inl invalid_argument \<Rightarrow>
               (- 1, [LogError (''Invalid profile seconds parameter: '' @ parameter @ '', invalid argument'')]))"

text \<open>The block of \<^verbatim>\<open>OnProfile\<close> that runs under \<^verbatim>\<open>mutex_\<close>.  On the branch of the empty
  waiter set, \<^verbatim>\<open>CHECK(!EventLoop::CurrentLoopInThisThread())\<close> comes first and the call
  \<^verbatim>\<open>EventLoop::CurrentLoopInThisThread()->RunAfter(...)\<close> second.\<close>

definition OnProfile_locked ::
  "Env \<Rightarrow> int \<Rightarrow> HttpConnection \<Rightarrow> PProfInspector \<Rightarrow> Outcome \<times> Event list \<times> PProfInspector" where
  "OnProfile_locked env seconds connection this =
     (if connections_m this = {} then
        (let started = ProfilerStart kProfileFile #
                         (if ProfilerStart_ok env then [ProfilerRegisterThread]
                          else [LogError ''ProfilerStart failed''])
         in if \<not> (CurrentLoopInThisThread env = None) then (CheckFailed, started, this)
            else case CurrentLoopInThisThread env of
                   None \<Rightarrow> (NullPointerDereference, started, this)
                 | Some loop \<Rightarrow>
                     (Returned, started @ [RunAfter loop (seconds * 1000) ProfileComplete],
                      this\<lparr>connections_m := insert (conn_id connection) (connections_m this)\<rparr>))
      else (Returned, [], this\<lparr>connections_m := insert (conn_id connection) (connections_m this)\<rparr>))"

definition OnProfile ::
  "Env \<Rightarrow> HttpConnection \<Rightarrow> PProfInspector \<Rightarrow> Outcome \<times> Event list \<times> PProfInspector" where
  "OnProfile env connection this =
     (if request_method (request connection) \<noteq> kGet
      then (Returned, [OnError (conn_id connection) 400 ''Only accept Get method''], this)
      else let (seconds, logged) = GetProfileSeconds (seconds_parameter (request connection))
           in if seconds < 0
              then (Returned,
                    logged @ [OnError (conn_id connection) 400 ''Invalid Profile Seconds Parameter''],
                    this)
              else (case OnProfile_locked env seconds connection this of
                      (outcome, events, this') \<Rightarrow> (outcome, logged @ events, this')))"

text \<open>The loop of both completion tasks over the local set \<^verbatim>\<open>connections\<close>: for each
  identifier, \<^verbatim>\<open>SendByHttpConnectionId\<close> and then \<^verbatim>\<open>Shutdown\<close> on the server.\<close>

fun broadcast :: "nat list \<Rightarrow> string \<Rightarrow> Event list" where
  "broadcast [] output = []"
| "broadcast (connection # rest) output =
     SendByHttpConnectionId connection output # ServerShutdown connection # broadcast rest output"

text \<open>A \<^verbatim>\<open>std::set\<close> is iterated in ascending order of its elements.\<close>

definition set_iteration :: "nat set \<Rightarrow> nat list" where
  "set_iteration S = sorted_list_of_set S"

text \<open>Modelled from the spec: \<^verbatim>\<open>FileUtil::ReadFileToString\<close> is not part of the source
  file; a read that fails leaves the output string as it was, empty ("failure to read
  yields an empty body").\<close>

definition read_output :: "Env \<Rightarrow> string \<Rightarrow> string" where
  "read_output env path = (case ReadFileToString env path of Some text \<Rightarrow> text | None \<Rightarrow> [])"

text \<open>\<^verbatim>\<open>OnProfileComplete\<close>: the local set \<^verbatim>\<open>connections\<close> starts empty and is swapped
  with \<^verbatim>\<open>connections_\<close> under the lock.\<close>

definition OnProfileComplete ::
  "Env \<Rightarrow> PProfInspector \<Rightarrow> Outcome \<times> Event list \<times> PProfInspector" where
  "OnProfileComplete env this =
     (let connections = {};
          (connections, this') = (connections_m this, this\<lparr>connections_m := connections\<rparr>);
          output = read_output env kProfileFile
      in (Returned,
          [ProfilerFlush, ProfilerStop] @ broadcast (set_iteration connections) output,
          this'))"

subsection \<open>The heap profile handler\<close>

definition OnHeap ::
  "Env \<Rightarrow> HttpConnection \<Rightarrow> PProfInspector \<Rightarrow> Outcome \<times> Event list \<times> PProfInspector" where
  "OnHeap env connection this =
     (case getenv_TCMALLOC_SAMPLE_PARAMETER env of
        None \<Rightarrow>
          if heap_connections_m this = {} then
            (case CurrentLoopInThisThread env of
               None \<Rightarrow> (NullPointerDereference, [HeapProfilerStart ''/tmp/heap-profile.dat''], this)
             | Some loop \<Rightarrow>
                 (Returned,
                  [HeapProfilerStart ''/tmp/heap-profile.dat'',
                   RunAfter loop (30 * 1000) HeapProfileComplete],
                  this\<lparr>heap_connections_m := insert (conn_id connection) (heap_connections_m this)\<rparr>))
          else (Returned, [],
                this\<lparr>heap_connections_m := insert (conn_id connection) (heap_connections_m this)\<rparr>)
      | Some _ \<Rightarrow>
          (Returned,
           [Send (conn_id connection) (GetHeapSample env), Shutdown (conn_id connection)],
           this))"

text \<open>\<^verbatim>\<open>OnHeapProfileComplete\<close>: the local set \<^verbatim>\<open>connections\<close> starts empty; the swap
  under the lock is \<^verbatim>\<open>heap_connections.swap(connections_)\<close>; the loop runs over the
  local set.\<close>

definition OnHeapProfileComplete ::
  "Env \<Rightarrow> PProfInspector \<Rightarrow> Outcome \<times> Event list \<times> PProfInspector" where
  "OnHeapProfileComplete env this =
     (let output = GetHeapProfile env;
          connections = {};
          this' = this\<lparr>heap_connections := connections_m this,
                       connections_m := heap_connections this\<rparr>
      in (Returned, [HeapProfilerStop] @ broadcast (set_iteration connections) output, this'))"

subsection \<open>The histogram handler\<close>

text \<open>The loop \<^verbatim>\<open>for (int i = 0; i < kMallocHistogramSize; ++i)\<close> writing to the stream.\<close>

function histogram_loop :: "nat \<Rightarrow> nat \<Rightarrow> (nat \<Rightarrow> int) \<Rightarrow> string \<Rightarrow> string" where
  "histogram_loop i n histogram s =
     (if i < n
      then histogram_loop (i + 1) n histogram
             (s @ dec_nat i @ '' '' @ dec_int (histogram i) @ [NL])
      else s)"
  by pat_completeness auto
termination
  by (relation "measure (\<lambda>(i, n, histogram, s). n - i)") auto

declare histogram_loop.simps [simp del]

definition OnHeapHistogram ::
  "Env \<Rightarrow> HttpConnection \<Rightarrow> PProfInspector \<Rightarrow> Outcome \<times> Event list \<times> PProfInspector" where
  "OnHeapHistogram env connection this =
     (case MallocMemoryStats env of
        (blocks, total_size, histogram) \<Rightarrow>
          (let s = ''blocks '' @ dec_int blocks @ [NL] @ ''total '' @ dec_nat total_size @ [NL];
               s = histogram_loop 0 (kMallocHistogramSize env) histogram s
           in (Returned, [Send (conn_id connection) s, Shutdown (conn_id connection)], this)))"

subsection \<open>The symbol handler\<close>

text \<open>\<^verbatim>\<open>boost::algorithm::split\<close> without token compression: a token ends at every
  character that satisfies the predicate, and empty tokens are kept.\<close>

fun split :: "(char \<Rightarrow> bool) \<Rightarrow> string \<Rightarrow> string list" where
  "split p [] = [[]]"
| "split p (c # cs) =
     (if p c then [] # split p cs
      else case split p cs of
             token # tokens \<Rightarrow> (c # token) # tokens
           | [] \<Rightarrow> [[c]])"

definition is_any_of :: "string \<Rightarrow> char \<Rightarrow> bool" where
  "is_any_of chars c = (c \<in> set chars)"

text \<open>The loop over \<^verbatim>\<open>addresses\<close>, appending to the body of the response.\<close>

fun symbol_loop :: "Env \<Rightarrow> string list \<Rightarrow> string \<Rightarrow> string" where
  "symbol_loop env [] response_body = response_body"
| "symbol_loop env (address # rest) response_body =
     (let b = response_body @ address;
          b = b @ [TAB];
          b = (case Symbolize env (strtoull16 address) of
                 Some name \<Rightarrow> (b @ name) @ [NL]
               | None \<Rightarrow> b @ ''unknown'' @ [NL])
      in symbol_loop env rest b)"

definition OnSymbol ::
  "Env \<Rightarrow> HttpConnection \<Rightarrow> PProfInspector \<Rightarrow> Outcome \<times> Event list \<times> PProfInspector" where
  "OnSymbol env connection this =
     (if request_method (request connection) = kGet
      then (Returned,
            [Send (conn_id connection) (''num_symbols: 1'' @ [NL]), Shutdown (conn_id connection)],
            this)
      else if request_method (request connection) \<noteq> kPost
      then (Returned, [OnError (conn_id connection) 400 ''Only accept Post method''], this)
      else let addresses = split (is_any_of ''+'') (body (request connection))
           in (Returned, [SendResponse (conn_id connection) (symbol_loop env addresses [])], this))"

subsection \<open>Concrete inputs for the examples\<close>

definition example_env :: Env where
  "example_env =
     \<lparr>CurrentLoopInThisThread = Some 1,
      ProfilerStart_ok = True,
      ReadFileToString = (\<lambda>path. if path = ''profile.dat'' then Some ''cpu'' else None),
      getenv_TCMALLOC_SAMPLE_PARAMETER = None,
      GetHeapSample = ''sample'',
      GetHeapProfile = ''heap'',
      Symbolize = (\<lambda>address. if address = 26 then Some ''main'' else None),
      kMallocHistogramSize = 3,
      MallocMemoryStats = (2, 48, \<lambda>i. int i * 5)\<rparr>"

definition idle :: PProfInspector where
  "idle = \<lparr>connections_m = {}, heap_connections_m = {}, heap_connections = {}\<rparr>"

definition get_profile :: "nat \<Rightarrow> string \<Rightarrow> HttpConnection" where
  "get_profile c seconds =
     \<lparr>conn_id = c, request = \<lparr>request_method = kGet, seconds_parameter = seconds, body = []\<rparr>\<rparr>"

subsection \<open>Reading the calls of a completion task\<close>

text \<open>The connections that were sent a body through the server, with the body, and the
  connections that were shut down through the server, both in program order.\<close>

fun sent :: "Event list \<Rightarrow> (nat \<times> string) list" where
  "sent [] = []"
| "sent (SendByHttpConnectionId connection output # events) = (connection, output) # sent events"
| "sent (_ # events) = sent events"

fun closed :: "Event list \<Rightarrow> nat list" where
  "closed [] = []"
| "closed (ServerShutdown connection # events) = connection # closed events"
| "closed (_ # events) = closed events"


subsection \<open>The response bodies as the specification words them\<close>

text \<open>A bucket line of the histogram: \<open><bucket-index> <count>\<close> and a newline.\<close>

definition spec_bucket_line :: "nat \<Rightarrow> int \<Rightarrow> string" where
  "spec_bucket_line i count = dec_nat i @ '' '' @ dec_int count @ [NL]"

definition spec_bucket_lines :: "nat \<Rightarrow> (nat \<Rightarrow> int) \<Rightarrow> string list" where
  "spec_bucket_lines n histogram = map (\<lambda>i. spec_bucket_line i (histogram i)) [0..<n]"

text \<open>A line of the symbol table: \<open><token>\t<name>\n\<close> when the address of the token
  resolves, \<open><token>\tunknown\n\<close> when it does not.\<close>

definition spec_symbol_line :: "Env \<Rightarrow> string \<Rightarrow> string" where
  "spec_symbol_line env token =
     token @ [TAB]
       @ (case Symbolize env (strtoull16 token) of Some name \<Rightarrow> name | None \<Rightarrow> ''unknown'')
       @ [NL]"

text \<open>Tokens put together again with the delimiter between them.\<close>

fun join :: "char \<Rightarrow> string list \<Rightarrow> string" where
  "join d [] = []"
| "join d [token] = token"
| "join d (token # tokens) = token @ d # join d tokens"

definition post_symbol :: "nat \<Rightarrow> string \<Rightarrow> HttpConnection" where
  "post_symbol c text =
     \<lparr>conn_id = c, request = \<lparr>request_method = kPost, seconds_parameter = [], body = text\<rparr>\<rparr>"

section \<open>Properties\<close>

subsection \<open>The completion task of the heap session\<close>

lemma OnHeapProfileComplete_result:
  "OnHeapProfileComplete env this =
     (Returned, [HeapProfilerStop],
      this\<lparr>heap_connections := connections_m this, connections_m := heap_connections this\<rparr>)"
  by (simp add: OnHeapProfileComplete_def set_iteration_def)

text \<open>
  C1.  The heap completion task should send the heap profile to exactly the waiters of the
  heap session, close them, empty the heap session's waiter set and leave the CPU
  session's waiter set alone.  The code does none of it: with connection 7 waiting on the
  heap session and connection 3 on the CPU session, nothing is sent and nobody is closed,
  connection 7 stays in the heap waiter set, and the CPU waiter set loses connection 3.
\<close>

theorem OnHeapProfileComplete_misses_heap_waiters:
  "OnHeapProfileComplete example_env
     \<lparr>connections_m = {3}, heap_connections_m = {7}, heap_connections = {}\<rparr>
   = (Returned, [HeapProfilerStop],
      \<lparr>connections_m = {}, heap_connections_m = {7}, heap_connections = {3}\<rparr>)"
  by (simp add: OnHeapProfileComplete_def set_iteration_def)

subsection \<open>The scheduling step of the CPU session\<close>

lemma GetProfileSeconds_5: "GetProfileSeconds ''5'' = (5, [])"
  by (simp add: GetProfileSeconds_def stoi_def isspace_def isdigit_def ord_def digit_val_def
      kMaxProfileSeconds_def)

text \<open>
  C5.  On the branch of the empty waiter set the handler never gets past the scheduling
  step: when the thread has a current event loop the \<^verbatim>\<open>CHECK\<close> fails, and when it has
  none the \<^verbatim>\<open>CHECK\<close> holds and \<^verbatim>\<open>RunAfter\<close> is called through the null pointer.  So the
  assertion and the dereference are never both good.
\<close>

theorem OnProfile_first_joiner_never_returns:
  "fst (OnProfile_locked env seconds connection (this\<lparr>connections_m := {}\<rparr>)) =
     (if CurrentLoopInThisThread env = None then NullPointerDereference else CheckFailed)"
  by (simp add: OnProfile_locked_def Let_def)

text \<open>
  C2.  A request that finds the waiter set empty should start the profiler once and
  schedule exactly one completion task, after its own number of seconds.  On the code, a
  GET with \<open>seconds=5\<close> on the idle inspector starts the profiler and then stops at the
  scheduling step, with and without a current event loop: no \<open>RunAfter\<close> is issued and
  the connection is not added.
\<close>

theorem OnProfile_first_joiner_schedules_nothing:
  "OnProfile (example_env\<lparr>CurrentLoopInThisThread := Some 1\<rparr>) (get_profile 4 ''5'') idle
     = (CheckFailed, [ProfilerStart ''profile.dat'', ProfilerRegisterThread], idle)
   \<and> OnProfile (example_env\<lparr>CurrentLoopInThisThread := None\<rparr>) (get_profile 4 ''5'') idle
     = (NullPointerDereference, [ProfilerStart ''profile.dat'', ProfilerRegisterThread], idle)"
  by (simp add: OnProfile_def GetProfileSeconds_5 OnProfile_locked_def example_env_def
      kProfileFile_def get_profile_def idle_def)

text \<open>
  C7.  When \<^verbatim>\<open>ProfilerStart\<close> fails on the branch of the empty waiter set, the failure is
  logged, and the handler goes on to the same scheduling step, where it stops: the timer
  is not scheduled and the connection is not added to the waiter set.
\<close>

theorem OnProfile_start_failure_schedules_nothing:
  "OnProfile (example_env\<lparr>ProfilerStart_ok := False\<rparr>) (get_profile 4 ''5'') idle
     = (CheckFailed, [ProfilerStart ''profile.dat'', LogError ''ProfilerStart failed''], idle)
   \<and> OnProfile (example_env\<lparr>ProfilerStart_ok := False, CurrentLoopInThisThread := None\<rparr>)
        (get_profile 4 ''5'') idle
     = (NullPointerDereference,
        [ProfilerStart ''profile.dat'', LogError ''ProfilerStart failed''], idle)"
  by (simp add: OnProfile_def GetProfileSeconds_5 OnProfile_locked_def example_env_def
      kProfileFile_def get_profile_def idle_def)

subsection \<open>The completion task of the CPU session\<close>

lemma sent_broadcast: "sent (broadcast cs output) = map (\<lambda>c. (c, output)) cs"
  by (induction cs) simp_all

lemma closed_broadcast: "closed (broadcast cs output) = cs"
  by (induction cs) simp_all

lemma OnProfileComplete_result:
  "OnProfileComplete env this =
     (Returned,
      [ProfilerFlush, ProfilerStop]
        @ broadcast (set_iteration (connections_m this)) (read_output env kProfileFile),
      this\<lparr>connections_m := {}\<rparr>)"
  by (simp add: OnProfileComplete_def)

text \<open>
  The CPU completion task flushes and stops the profiler, takes the whole waiter set and
  leaves it empty, and then, for the taken connections in turn, sends the body and shuts
  the connection down.  The body is the content of the profile file, or empty when the
  read fails, and is the same for all.  Every taken connection is sent to once and
  closed once, and nobody else is.
\<close>

lemma OnProfileComplete_serves_every_waiter_once:
  assumes "finite (connections_m this)"
  shows "let result = OnProfileComplete env this;
             events = fst (snd result);
             this' = snd (snd result);
             output = (case ReadFileToString env kProfileFile of Some text \<Rightarrow> text | None \<Rightarrow> [])
         in fst result = Returned
          \<and> events = [ProfilerFlush, ProfilerStop]
                       @ broadcast (set_iteration (connections_m this)) output
          \<and> sent events = map (\<lambda>c. (c, output)) (set_iteration (connections_m this))
          \<and> closed events = set_iteration (connections_m this)
          \<and> distinct (set_iteration (connections_m this))
          \<and> set (set_iteration (connections_m this)) = connections_m this
          \<and> this' = this\<lparr>connections_m := {}\<rparr>
          \<and> connections_m this' = {}"
  using assms
  by (simp add: OnProfileComplete_result Let_def sent_broadcast closed_broadcast
      set_iteration_def read_output_def)

lemma OnProfileComplete_example:
  "OnProfileComplete example_env
     \<lparr>connections_m = {7, 3}, heap_connections_m = {}, heap_connections = {}\<rparr>
   = (Returned,
      [ProfilerFlush, ProfilerStop,
       SendByHttpConnectionId 3 ''cpu'', ServerShutdown 3,
       SendByHttpConnectionId 7 ''cpu'', ServerShutdown 7],
      idle)"
proof -
  have it: "set_iteration {7, 3} = [3, 7]"
    by (simp add: set_iteration_def)
  show ?thesis
    by (simp add: OnProfileComplete_result it read_output_def example_env_def kProfileFile_def
        idle_def)
qed

text \<open>
  C3.  After the CPU completion task has taken and served its waiters, a subsequent
  request should start a fresh session with its own window length.  The completion task
  does serve connections 3 and 7 once each with the same body and leaves the waiter set
  empty, but the request that follows (a GET with \<open>seconds=5\<close>) starts the profiler and
  then stops at the scheduling step, with and without a current event loop: no
  \<open>RunAfter\<close> is issued and the connection is not added, so no session is started.  This
  holds after any completion, whatever the environment and the seconds.
\<close>

theorem OnProfile_after_completion_starts_no_session:
  "OnProfileComplete example_env
     \<lparr>connections_m = {7, 3}, heap_connections_m = {}, heap_connections = {}\<rparr>
   = (Returned,
      [ProfilerFlush, ProfilerStop,
       SendByHttpConnectionId 3 ''cpu'', ServerShutdown 3,
       SendByHttpConnectionId 7 ''cpu'', ServerShutdown 7],
      idle)
   \<and> OnProfile example_env (get_profile 9 ''5'')
        (snd (snd (OnProfileComplete example_env
           \<lparr>connections_m = {7, 3}, heap_connections_m = {}, heap_connections = {}\<rparr>)))
     = (CheckFailed, [ProfilerStart ''profile.dat'', ProfilerRegisterThread], idle)
   \<and> OnProfile (example_env\<lparr>CurrentLoopInThisThread := None\<rparr>) (get_profile 9 ''5'')
        (snd (snd (OnProfileComplete example_env
           \<lparr>connections_m = {7, 3}, heap_connections_m = {}, heap_connections = {}\<rparr>)))
     = (NullPointerDereference, [ProfilerStart ''profile.dat'', ProfilerRegisterThread], idle)
   \<and> OnProfile_locked env' seconds connection (snd (snd (OnProfileComplete env this)))
     = (if CurrentLoopInThisThread env' = None then NullPointerDereference else CheckFailed,
        ProfilerStart kProfileFile
          # (if ProfilerStart_ok env' then [ProfilerRegisterThread]
             else [LogError ''ProfilerStart failed'']),
        this\<lparr>connections_m := {}\<rparr>)"
proof (intro conjI)
  show "OnProfileComplete example_env
          \<lparr>connections_m = {7, 3}, heap_connections_m = {}, heap_connections = {}\<rparr>
        = (Returned,
           [ProfilerFlush, ProfilerStop,
            SendByHttpConnectionId 3 ''cpu'', ServerShutdown 3,
            SendByHttpConnectionId 7 ''cpu'', ServerShutdown 7],
           idle)"
    by (rule OnProfileComplete_example)
next
  show "OnProfile example_env (get_profile 9 ''5'')
          (snd (snd (OnProfileComplete example_env
             \<lparr>connections_m = {7, 3}, heap_connections_m = {}, heap_connections = {}\<rparr>)))
        = (CheckFailed, [ProfilerStart ''profile.dat'', ProfilerRegisterThread], idle)"
    unfolding OnProfileComplete_example
    by (simp add: OnProfile_def GetProfileSeconds_5 OnProfile_locked_def example_env_def
        kProfileFile_def get_profile_def idle_def)
next
  show "OnProfile (example_env\<lparr>CurrentLoopInThisThread := None\<rparr>) (get_profile 9 ''5'')
          (snd (snd (OnProfileComplete example_env
             \<lparr>connections_m = {7, 3}, heap_connections_m = {}, heap_connections = {}\<rparr>)))
        = (NullPointerDereference, [ProfilerStart ''profile.dat'', ProfilerRegisterThread],
           idle)"
    unfolding OnProfileComplete_example
    by (simp add: OnProfile_def GetProfileSeconds_5 OnProfile_locked_def example_env_def
        kProfileFile_def get_profile_def idle_def)
next
  show "OnProfile_locked env' seconds connection (snd (snd (OnProfileComplete env this)))
        = (if CurrentLoopInThisThread env' = None then NullPointerDereference else CheckFailed,
           ProfilerStart kProfileFile
             # (if ProfilerStart_ok env' then [ProfilerRegisterThread]
                else [LogError ''ProfilerStart failed'']),
           this\<lparr>connections_m := {}\<rparr>)"
    by (simp add: OnProfileComplete_result OnProfile_locked_def)
qed

subsection \<open>The heap profile handler\<close>

text \<open>
  C6.  With \<^verbatim>\<open>TCMALLOC_SAMPLE_PARAMETER\<close> set, \<^verbatim>\<open>OnHeap\<close> sends the current heap sample
  and shuts the connection down, and the member fields stay as they were.  Without it,
  the connection joins the heap waiters; the heap profiler is started and the heap
  completion task is scheduled after 30000 ms only when the waiter set was empty (on a
  thread that has a current event loop), and a later joiner starts and schedules
  nothing.
\<close>

theorem OnHeap_immediate_or_session:
  "(getenv_TCMALLOC_SAMPLE_PARAMETER env = Some v \<longrightarrow>
      OnHeap env connection this
        = (Returned,
           [Send (conn_id connection) (GetHeapSample env), Shutdown (conn_id connection)],
           this))
   \<and> (getenv_TCMALLOC_SAMPLE_PARAMETER env = None \<and> heap_connections_m this = {}
        \<and> CurrentLoopInThisThread env = Some loop \<longrightarrow>
      OnHeap env connection this
        = (Returned,
           [HeapProfilerStart ''/tmp/heap-profile.dat'', RunAfter loop 30000 HeapProfileComplete],
           this\<lparr>heap_connections_m := {conn_id connection}\<rparr>))
   \<and> (getenv_TCMALLOC_SAMPLE_PARAMETER env = None \<and> heap_connections_m this \<noteq> {} \<longrightarrow>
      OnHeap env connection this
        = (Returned, [],
           this\<lparr>heap_connections_m := insert (conn_id connection) (heap_connections_m this)\<rparr>))"
  by (simp add: OnHeap_def)

theorem OnHeap_immediate_or_session_witness:
  "OnHeap (example_env\<lparr>getenv_TCMALLOC_SAMPLE_PARAMETER := Some ''524288''\<rparr>)
       (get_profile 4 []) idle
     = (Returned, [Send 4 ''sample'', Shutdown 4], idle)
   \<and> OnHeap example_env (get_profile 4 []) idle
     = (Returned,
        [HeapProfilerStart ''/tmp/heap-profile.dat'', RunAfter 1 30000 HeapProfileComplete],
        idle\<lparr>heap_connections_m := {4}\<rparr>)
   \<and> OnHeap example_env (get_profile 5 []) (idle\<lparr>heap_connections_m := {4}\<rparr>)
     = (Returned, [], idle\<lparr>heap_connections_m := {5, 4}\<rparr>)"
  using OnHeap_immediate_or_session
          [where env = "example_env\<lparr>getenv_TCMALLOC_SAMPLE_PARAMETER := Some ''524288''\<rparr>"
             and v = "''524288''" and connection = "get_profile 4 []" and this = idle]
        OnHeap_immediate_or_session
          [where env = example_env and loop = 1 and connection = "get_profile 4 []"
             and this = idle]
        OnHeap_immediate_or_session
          [where env = example_env and connection = "get_profile 5 []"
             and this = "idle\<lparr>heap_connections_m := {4}\<rparr>"]
  by (simp add: example_env_def get_profile_def idle_def)

subsection \<open>The histogram handler\<close>

lemma digits_value_snoc:
  "digits_value base val acc (cs @ [c]) = digits_value base val acc cs * base + val c"
  by (induction cs arbitrary: acc) simp_all

lemma below_ten: "n < 10 \<Longrightarrow> n \<in> {0, 1, 2, 3, 4, 5, 6, 7, 8, 9::nat}"
  by auto

lemma digit_char_val: "n < 10 \<Longrightarrow> digit_val (''0123456789'' ! n) = n"
  by (drule below_ten) (auto simp: digit_val_def ord_def)

lemma digit_char_isdigit: "n < 10 \<Longrightarrow> isdigit (''0123456789'' ! n)"
  by (drule below_ten) (auto simp: isdigit_def ord_def)

lemma digits_value_dec_nat: "digits_value 10 digit_val 0 (dec_nat n) = n"
proof (induction n rule: dec_nat.induct)
  case (1 n)
  show ?case
  proof (cases "n < 10")
    case True
    then show ?thesis by (subst dec_nat.simps) (simp add: digit_char_val)
  next
    case False
    then have "digits_value 10 digit_val 0 (dec_nat n)
                 = digits_value 10 digit_val 0 (dec_nat (n div 10)) * 10
                     + digit_val (''0123456789'' ! (n mod 10))"
      by (subst dec_nat.simps) (simp add: digits_value_snoc)
    also have "\<dots> = n div 10 * 10 + n mod 10"
      using False "1.IH" by (simp add: digit_char_val)
    finally show ?thesis by simp
  qed
qed

lemma inj_dec_nat: "inj dec_nat"
  by (rule inj_on_inverseI [where g = "digits_value 10 digit_val 0"])
     (rule digits_value_dec_nat)

lemma histogram_loop_lines:
  "histogram_loop i n histogram s
     = s @ concat (map (\<lambda>j. spec_bucket_line j (histogram j)) [i..<n])"
proof (induction i n histogram s rule: histogram_loop.induct)
  case (1 i n histogram s)
  show ?case
  proof (cases "i < n")
    case True
    then show ?thesis
      using "1.IH" by (subst histogram_loop.simps) (simp add: upt_conv_Cons spec_bucket_line_def)
  next
    case False
    then show ?thesis by (subst histogram_loop.simps) simp
  qed
qed

text \<open>
  C9.  The histogram handler sends one body and shuts the connection down.  The body is
  the line \<open>blocks <n>\<close>, the line \<open>total <n>\<close> and then one line
  \<open><index> <count>\<close> for each index from 0 up to \<open>kMallocHistogramSize - 1\<close>, in
  that order: as many bucket lines as \<open>kMallocHistogramSize\<close>, with strictly ascending
  indices whose decimal texts are pairwise different.
\<close>

theorem OnHeapHistogram_body:
  "OnHeapHistogram env connection this =
     (Returned,
      [Send (conn_id connection)
         (''blocks '' @ dec_int (fst (MallocMemoryStats env)) @ [NL]
            @ ''total '' @ dec_nat (fst (snd (MallocMemoryStats env))) @ [NL]
            @ concat (spec_bucket_lines (kMallocHistogramSize env) (snd (snd (MallocMemoryStats env))))),
       Shutdown (conn_id connection)],
      this)
   \<and> length (spec_bucket_lines (kMallocHistogramSize env) histogram) = kMallocHistogramSize env
   \<and> spec_bucket_lines (kMallocHistogramSize env) histogram
       = map (\<lambda>i. dec_nat i @ '' '' @ dec_int (histogram i) @ [NL]) [0..<kMallocHistogramSize env]
   \<and> sorted_wrt (<) [0..<kMallocHistogramSize env]
   \<and> inj dec_nat"
  by (simp add: OnHeapHistogram_def histogram_loop_lines spec_bucket_lines_def spec_bucket_line_def
      inj_dec_nat split: prod.splits)

lemma OnHeapHistogram_example:
  "OnHeapHistogram example_env (get_profile 4 []) idle
     = (Returned,
        [Send 4 (''blocks 2'' @ [NL] @ ''total 48'' @ [NL]
                   @ ''0 0'' @ [NL] @ ''1 5'' @ [NL] @ ''2 10'' @ [NL]),
         Shutdown 4],
        idle)"
  by code_simp

subsection \<open>The symbol handler\<close>

lemma symbol_loop_lines:
  "symbol_loop env addresses response_body
     = response_body @ concat (map (spec_symbol_line env) addresses)"
  by (induction addresses arbitrary: response_body)
     (simp_all add: spec_symbol_line_def split: option.splits)

lemma split_not_empty: "split p s \<noteq> []"
  by (induction s) (simp_all split: list.splits)

lemma join_Cons: "tokens \<noteq> [] \<Longrightarrow> join d (token # tokens) = token @ d # join d tokens"
  by (cases tokens) simp_all

lemma join_split: "join d (split (\<lambda>c. c = d) s) = s"
proof (induction s)
  case Nil
  show ?case by simp
next
  case (Cons c s)
  show ?case
  proof (cases "c = d")
    case True
    then show ?thesis using Cons by (simp add: join_Cons split_not_empty)
  next
    case False
    obtain token tokens where st: "split (\<lambda>c. c = d) s = token # tokens"
      using split_not_empty [of "\<lambda>c. c = d" s] by (cases "split (\<lambda>c. c = d) s") auto
    then show ?thesis using Cons False by (cases tokens) simp_all
  qed
qed

lemma split_tokens_free: "\<forall>token \<in> set (split p s). \<forall>c \<in> set token. \<not> p c"
  by (induction s) (auto split: list.splits)

lemma length_split: "length (split p s) = Suc (length (filter p s))"
  by (induction s) (auto split: list.splits simp: split_not_empty)

lemma is_any_of_plus: "is_any_of ''+'' = (\<lambda>c. c = CHR ''+'')"
  by (auto simp: is_any_of_def)

lemma isxdigit_zero: "isxdigit (CHR ''0'')"
  by (simp add: isxdigit_def isdigit_def ord_def)

lemma skip_0x_no_digit: "\<not> isxdigit c \<Longrightarrow> skip_0x (c # cs) = c # cs"
  using isxdigit_zero by (cases "(c # cs)" rule: skip_0x.cases) auto

lemma strtoull16_unparseable:
  "token = [] \<or> \<not> (isspace (hd token) \<or> hd token = CHR ''-'' \<or> hd token = CHR ''+''
                     \<or> isxdigit (hd token))
   \<Longrightarrow> strtoull16 token = 0"
  by (cases token) (auto simp: strtoull16_def skip_0x_no_digit)

text \<open>
  C8.  On a POST the symbol handler splits the body at every \<open>+\<close> (the tokens, joined
  by \<open>+\<close>, give the body back, and no token holds a \<open>+\<close>), and sends once a
  body made of one line per token, in the order of the tokens: the token, a tab, the
  name that \<^verbatim>\<open>Symbolize\<close> gives for the token read as a hexadecimal number or
  \<open>unknown\<close> when it gives none, and a newline.  A token that starts with no
  hexadecimal numeral is read as 0.
\<close>

theorem OnSymbol_post_lines:
  assumes "request_method (request connection) = kPost"
  shows "let tokens = split (is_any_of ''+'') (body (request connection))
         in OnSymbol env connection this
              = (Returned,
                 [SendResponse (conn_id connection) (concat (map (spec_symbol_line env) tokens))],
                 this)
          \<and> join (CHR ''+'') tokens = body (request connection)
          \<and> length tokens
              = Suc (length (filter (\<lambda>c. c = CHR ''+'') (body (request connection))))
          \<and> (\<forall>token \<in> set tokens. CHR ''+'' \<notin> set token)
          \<and> (\<forall>token. token = [] \<or> \<not> (isspace (hd token) \<or> hd token = CHR ''-''
                          \<or> hd token = CHR ''+'' \<or> isxdigit (hd token))
                \<longrightarrow> strtoull16 token = 0)"
proof -
  have free: "\<forall>token \<in> set (split (\<lambda>c. c = CHR ''+'') (body (request connection))).
                CHR ''+'' \<notin> set token"
    using split_tokens_free [of "\<lambda>c. c = CHR ''+''" "body (request connection)"] by blast
  show ?thesis
    using assms free strtoull16_unparseable
    by (simp add: Let_def OnSymbol_def symbol_loop_lines is_any_of_plus join_split length_split)
qed

lemma strtoull16_1a: "strtoull16 ''1a'' = 26"
  by (simp add: strtoull16_def isspace_def isxdigit_def isdigit_def ord_def xdigit_val_def)

lemma strtoull16_2b: "strtoull16 ''2b'' = 43"
  by (simp add: strtoull16_def isspace_def isxdigit_def isdigit_def ord_def xdigit_val_def)

theorem OnSymbol_post_lines_witness:
  "OnSymbol example_env (post_symbol 4 ''1a+2b'') idle
     = (Returned,
        [SendResponse 4 (''1a'' @ [TAB] @ ''main'' @ [NL] @ ''2b'' @ [TAB] @ ''unknown'' @ [NL])],
        idle)"
proof -
  have post: "request_method (request (post_symbol 4 ''1a+2b'')) = kPost"
    by (simp add: post_symbol_def)
  have tokens: "split (is_any_of ''+'') ''1a+2b'' = [''1a'', ''2b'']"
    by (simp add: is_any_of_def)
  show ?thesis
    using OnSymbol_post_lines [OF post, of example_env idle]
    by (simp add: Let_def tokens spec_symbol_line_def strtoull16_1a strtoull16_2b example_env_def
        post_symbol_def del: split.simps)
qed

subsection \<open>The seconds parameter of the CPU profile handler\<close>

lemma dropWhile_isspace_prefix:
  "list_all isspace ws \<Longrightarrow> xs = [] \<or> \<not> isspace (hd xs) \<Longrightarrow> dropWhile isspace (ws @ xs) = xs"
  by (induction ws) (cases xs; simp)+

lemma takeWhile_isdigit_prefix:
  "list_all isdigit ds \<Longrightarrow> rest = [] \<or> \<not> isdigit (hd rest) \<Longrightarrow> takeWhile isdigit (ds @ rest) = ds"
  by (induction ds) (cases rest; simp)+

lemma isdigit_not_sign: "isdigit c \<Longrightarrow> c \<noteq> CHR ''-'' \<and> c \<noteq> CHR ''+'' \<and> \<not> isspace c"
  by (auto simp: isdigit_def isspace_def ord_def)

lemma sign_not_space: "\<not> isspace (CHR ''-'') \<and> \<not> isspace (CHR ''+'')"
  by (simp add: isspace_def)

lemma take_sign_digits:
  "ds \<noteq> [] \<Longrightarrow> list_all isdigit ds \<Longrightarrow> take_sign (ds @ rest) = (False, ds @ rest)"
  by (cases ds) (auto dest: isdigit_not_sign)

lemma stoi_prefix:
  assumes ws: "list_all isspace ws"
    and sg: "sg = [] \<or> sg = ''+'' \<or> sg = ''-''"
    and ds: "ds \<noteq> []" "list_all isdigit ds"
    and rest: "rest = [] \<or> \<not> isdigit (hd rest)"
    and v: "v = (if sg = ''-'' then - int (digits_value 10 digit_val 0 ds)
                 else int (digits_value 10 digit_val 0 ds))"
  shows "stoi (ws @ sg @ ds @ rest)
           = (if v < - 2147483648 \<or> 2147483647 < v then Inl out_of_range else Inr v)"
proof -
  obtain d ds' where dsc: "ds = d # ds'" using ds(1) by (cases ds) auto
  then have d: "isdigit d" using ds(2) by simp
  have hd_ok: "sg @ ds @ rest = [] \<or> \<not> isspace (hd (sg @ ds @ rest))"
    using sg dsc d isdigit_not_sign [of d] sign_not_space by auto
  have drop: "dropWhile isspace (ws @ sg @ ds @ rest) = sg @ ds @ rest"
    using dropWhile_isspace_prefix [OF ws hd_ok] .
  have sign: "take_sign (sg @ ds @ rest) = (sg = ''-'', ds @ rest)"
    using sg take_sign_digits [OF ds, of rest] by auto
  have tw: "takeWhile isdigit (ds @ rest) = ds"
    using takeWhile_isdigit_prefix [OF ds(2) rest] .
  show ?thesis
    using v ds(1) by (simp add: stoi_def drop sign tw Let_def)
qed

lemma OnProfile_accepts:
  assumes "request_method (request connection) = kGet"
    and "GetProfileSeconds (seconds_parameter (request connection)) = (seconds, [])"
    and "0 \<le> seconds"
  shows "OnProfile env connection this = OnProfile_locked env seconds connection this"
  using assms by (simp add: OnProfile_def split: prod.splits)








lemma dec_nat_digits: "list_all isdigit (dec_nat n)"
proof (induction n rule: dec_nat.induct)
  case (1 n)
  show ?case
  proof (cases "n < 10")
    case True
    then show ?thesis by (subst dec_nat.simps) (simp add: digit_char_isdigit)
  next
    case False
    then show ?thesis
      using "1.IH" by (subst dec_nat.simps) (simp add: digit_char_isdigit)
  qed
qed

lemma dec_nat_not_empty: "dec_nat n \<noteq> []"
  by (subst dec_nat.simps) simp

lemma stoi_dec_nat:
  "stoi (dec_nat n) = (if 2147483647 < n then Inl out_of_range else Inr (int n))"
  using stoi_prefix [where ws = "[]" and sg = "[]" and ds = "dec_nat n" and rest = "[]"
      and v = "int n"]
  by (simp add: dec_nat_digits dec_nat_not_empty digits_value_dec_nat)

lemma GetProfileSeconds_dec_nat:
  "fst (GetProfileSeconds (dec_nat n)) = (if n \<le> 600 then int n else - 1)"
  by (simp add: GetProfileSeconds_def stoi_dec_nat dec_nat_not_empty kMaxProfileSeconds_def)

lemma GetProfileSeconds_rejects:
  assumes "parameter \<noteq> []"
    and "stoi parameter = Inl e \<or> (stoi parameter = Inr v \<and> (v < 0 \<or> 600 < v))"
  shows "\<exists>msg. GetProfileSeconds parameter = (- 1, [LogError msg])"
  using assms
  by (auto simp: GetProfileSeconds_def kMaxProfileSeconds_def split: stoi_error.splits)

text \<open>
  C4.  An empty seconds parameter gives 30; a parameter that \<^verbatim>\<open>std::stoi\<close> parses to a
  value within 0 and 600 gives that value, and with either a GET goes on to the locked
  block with these seconds.  When the parse fails or the value is outside 0 to 600, the
  handler answers 400 and returns with the member fields unchanged, having called
  nothing but the logger and \<^verbatim>\<open>OnError\<close>: no profiler start, no timer, no waiter.
  In particular the decimal text of a number \<open>n\<close> gives \<open>n\<close> up to 600 and is
  refused above.
\<close>

theorem OnProfile_seconds_parameter:
  "GetProfileSeconds [] = (30, [])
   \<and> (parameter \<noteq> [] \<and> stoi parameter = Inr v \<and> 0 \<le> v \<and> v \<le> 600
        \<longrightarrow> GetProfileSeconds parameter = (v, []))
   \<and> (request_method (request connection) = kGet
        \<and> seconds_parameter (request connection) = parameter
        \<and> (parameter = [] \<or> (stoi parameter = Inr v \<and> 0 \<le> v \<and> v \<le> 600))
        \<longrightarrow> OnProfile env connection this
              = OnProfile_locked env (if parameter = [] then 30 else v) connection this)
   \<and> (seconds_parameter (request connection) = parameter \<and> parameter \<noteq> []
        \<and> (stoi parameter = Inl e \<or> (stoi parameter = Inr v \<and> (v < 0 \<or> 600 < v)))
        \<longrightarrow> (\<exists>msg. OnProfile env connection this
                    = (Returned,
                       (if request_method (request connection) = kGet
                        then [LogError msg,
                              OnError (conn_id connection) 400 ''Invalid Profile Seconds Parameter'']
                        else [OnError (conn_id connection) 400 ''Only accept Get method'']),
                       this)))
   \<and> fst (GetProfileSeconds (dec_nat n)) = (if n \<le> 600 then int n else - 1)"
proof (intro conjI impI)
  show "fst (GetProfileSeconds (dec_nat n)) = (if n \<le> 600 then int n else - 1)"
    by (rule GetProfileSeconds_dec_nat)
next
  show "GetProfileSeconds [] = (30, [])"
    by (simp add: GetProfileSeconds_def kDefaultProfileSeconds_def)
next
  assume "parameter \<noteq> [] \<and> stoi parameter = Inr v \<and> 0 \<le> v \<and> v \<le> 600"
  then show "GetProfileSeconds parameter = (v, [])"
    by (simp add: GetProfileSeconds_def kMaxProfileSeconds_def)
next
  assume a: "request_method (request connection) = kGet
        \<and> seconds_parameter (request connection) = parameter
        \<and> (parameter = [] \<or> (stoi parameter = Inr v \<and> 0 \<le> v \<and> v \<le> 600))"
  then have "GetProfileSeconds (seconds_parameter (request connection))
               = (if parameter = [] then 30 else v, [])"
    by (auto simp: GetProfileSeconds_def kMaxProfileSeconds_def kDefaultProfileSeconds_def)
  moreover have "0 \<le> (if parameter = [] then 30 else v)" using a by auto
  ultimately show "OnProfile env connection this
              = OnProfile_locked env (if parameter = [] then 30 else v) connection this"
    using a by (intro OnProfile_accepts) simp_all
next
  assume a: "seconds_parameter (request connection) = parameter \<and> parameter \<noteq> []
        \<and> (stoi parameter = Inl e \<or> (stoi parameter = Inr v \<and> (v < 0 \<or> 600 < v)))"
  then obtain msg where "GetProfileSeconds parameter = (- 1, [LogError msg])"
    using GetProfileSeconds_rejects [of parameter e v] by blast
  then have "OnProfile env connection this
                    = (Returned,
                       (if request_method (request connection) = kGet
                        then [LogError msg,
                              OnError (conn_id connection) 400 ''Invalid Profile Seconds Parameter'']
                        else [OnError (conn_id connection) 400 ''Only accept Get method'']),
                       this)"
    using a by (simp add: OnProfile_def)
  then show "\<exists>msg. OnProfile env connection this
                    = (Returned,
                       (if request_method (request connection) = kGet
                        then [LogError msg,
                              OnError (conn_id connection) 400 ''Invalid Profile Seconds Parameter'']
                        else [OnError (conn_id connection) 400 ''Only accept Get method'']),
                       this)"
    by blast
qed

lemma stoi_45: "stoi ''45'' = Inr 45"
  by (simp add: stoi_def isspace_def isdigit_def ord_def digit_val_def)

lemma stoi_601: "stoi ''601'' = Inr 601"
  by (simp add: stoi_def isspace_def isdigit_def ord_def digit_val_def)

lemma stoi_abc: "stoi ''abc'' = Inl invalid_argument"
  by (simp add: stoi_def isspace_def isdigit_def ord_def digit_val_def)

theorem OnProfile_seconds_parameter_witness:
  "GetProfileSeconds ''45'' = (45, [])
   \<and> OnProfile example_env (get_profile 4 ''45'') (idle\<lparr>connections_m := {2}\<rparr>)
       = (Returned, [], idle\<lparr>connections_m := {4, 2}\<rparr>)
   \<and> (\<exists>msg. OnProfile example_env (get_profile 4 ''601'') idle
       = (Returned, [LogError msg, OnError 4 400 ''Invalid Profile Seconds Parameter''], idle))
   \<and> (\<exists>msg. OnProfile example_env (get_profile 4 ''abc'') idle
       = (Returned, [LogError msg, OnError 4 400 ''Invalid Profile Seconds Parameter''], idle))"
  using OnProfile_seconds_parameter [where parameter = "''45''" and v = 45 and connection = "get_profile 4 ''45''"
               and env = example_env and this = "idle\<lparr>connections_m := {2}\<rparr>"]
        OnProfile_seconds_parameter [where parameter = "''601''" and v = 601 and connection = "get_profile 4 ''601''"
               and env = example_env and this = idle]
        OnProfile_seconds_parameter [where parameter = "''abc''" and e = invalid_argument
               and connection = "get_profile 4 ''abc''" and env = example_env and this = idle]
  by (simp add: stoi_45 stoi_601 stoi_abc get_profile_def OnProfile_locked_def idle_def)

end
